theory Spec2Isabelle
  imports Complex_Main "HOL-Library.Multiset"
begin

section \<open>Values of the portfolio table\<close>

text \<open>
  The columns of the portfolio table hold 64-bit floats. A float is modelled as an exact
  real number or one of the three special values; rounding of the binary representation
  is not modelled, so every result below is a result of exact arithmetic. The sign of a
  zero is kept where a division reads it. A comparison with a special value follows
  IEEE 754, as Python and numpy do: every comparison with NaN is false.
\<close>

datatype fnum = Fin real | PInf | NInf | NaN

text \<open>\<^verbatim>\<open>x > t\<close> and \<^verbatim>\<open>x < t\<close> for a float \<open>x\<close> and a finite threshold \<open>t\<close>.\<close>

fun fgt :: "fnum \<Rightarrow> real \<Rightarrow> bool" where
  "fgt (Fin x) t = (t < x)"
| "fgt PInf t = True"
| "fgt NInf t = False"
| "fgt NaN t = False"

fun flt :: "fnum \<Rightarrow> real \<Rightarrow> bool" where
  "flt (Fin x) t = (x < t)"
| "flt PInf t = False"
| "flt NInf t = True"
| "flt NaN t = False"

text \<open>
  A fundamentals entry is Python's \<^verbatim>\<open>None\<close> or a float; \<^verbatim>\<open>row.get(key)\<close> gives
  \<^verbatim>\<open>None\<close> for a missing key as well.
\<close>

type_synonym cell = "fnum option"

text \<open>
  Python's truth value of a cell: \<^verbatim>\<open>None\<close> and the number zero are false, every other
  float is true, NaN and the infinities included.
\<close>

fun truthy :: "cell \<Rightarrow> bool" where
  "truthy None = False"
| "truthy (Some (Fin x)) = (x \<noteq> 0)"
| "truthy (Some PInf) = True"
| "truthy (Some NInf) = True"
| "truthy (Some NaN) = True"

text \<open>
  \<^verbatim>\<open>row[key] > t\<close> and \<^verbatim>\<open>row[key] < t\<close> on a cell. The source evaluates them only
  behind \<^verbatim>\<open>row.get(key) and\<close>, so the \<^verbatim>\<open>None\<close> case is never reached.
\<close>

fun cell_gt :: "cell \<Rightarrow> real \<Rightarrow> bool" where
  "cell_gt None t = False"
| "cell_gt (Some x) t = fgt x t"

fun cell_lt :: "cell \<Rightarrow> real \<Rightarrow> bool" where
  "cell_lt None t = False"
| "cell_lt (Some x) t = flt x t"

section \<open>Rows\<close>

text \<open>The four columns of \<^verbatim>\<open>portfolio.csv\<close>.\<close>

record holding =
  asset_type :: string
  ticker :: string
  shares :: real
  cost_basis :: real

text \<open>The nine entries of the dictionary built by \<^verbatim>\<open>fetch_fundamentals\<close>.\<close>

record fundamentals =
  pe :: cell
  forward_pe :: cell
  ps :: cell
  profit_margin :: cell
  revenue_growth :: cell
  eps_growth :: cell
  beta :: cell
  analyst_score :: cell
  target_price :: cell

text \<open>
  A row of the table as \<^verbatim>\<open>score_position\<close> and \<^verbatim>\<open>build_insight\<close> receive it: the
  holding, its price and metrics, and its fundamentals.
\<close>

record row = holding +
  current_price :: real
  market_value :: real
  cost_value :: real
  pl_dollar :: real
  pl_pct :: fnum
  weight_pct :: fnum
  fund :: fundamentals

section \<open>Position scoring and decision engine\<close>

definition score_position :: "row \<Rightarrow> int" where
  "score_position r =
    (let score = 0;
         score = (if fgt (pl_pct r) 80 then score - 1 else score);
         score = (if fgt (weight_pct r) 7 then score - 1 else score);
         score = (if flt (pl_pct r) (- 20) then score - 1 else score);
         score = (if truthy (pe (fund r)) \<and> cell_gt (pe (fund r)) 40
                  then score - 1 else score);
         score = (if truthy (forward_pe (fund r)) \<and> cell_lt (forward_pe (fund r)) 20
                  then score + 1 else score);
         score = (if truthy (analyst_score (fund r)) \<and> cell_lt (analyst_score (fund r)) (5 / 2)
                  then score + 1 else score)
     in score)"

definition decision_label :: "int \<Rightarrow> string" where
  "decision_label score =
    (if score \<ge> 2 then ''Strong Buy''
     else if score = 1 then ''Buy / Hold''
     else if score = 0 then ''Review''
     else if score = - 1 then ''Trim''
     else ''Sell'')"

section \<open>Insight string builder\<close>

text \<open>Python's \<^verbatim>\<open>sep.join(xs)\<close>.\<close>

fun join :: "string \<Rightarrow> string list \<Rightarrow> string" where
  "join sep [] = []"
| "join sep [x] = x"
| "join sep (x # y # ys) = x @ sep @ join sep (y # ys)"

definition build_insight :: "row \<Rightarrow> string" where
  "build_insight r =
    (let insights = [];
         insights = (if fgt (pl_pct r) 80
                     then insights @ [''Large unrealized gain''] else insights);
         insights = (if flt (pl_pct r) (- 20)
                     then insights @ [''Large loss''] else insights);
         insights = (if fgt (weight_pct r) 7
                     then insights @ [''High concentration''] else insights);
         insights = (if truthy (pe (fund r)) \<and> cell_gt (pe (fund r)) 40
                     then insights @ [''High valuation''] else insights);
         insights = (if truthy (analyst_score (fund r)) \<and> cell_lt (analyst_score (fund r)) 2
                     then insights @ [''Analysts bullish''] else insights)
     in if insights \<noteq> [] then join ''; '' insights else ''Stable'')"

section \<open>Price fetch functions\<close>

text \<open>
  \<^verbatim>\<open>str.lower()\<close> and \<^verbatim>\<open>str.upper()\<close> on ASCII text: the 26 letters change case and
  every other character stays. Strings of the model are byte strings, so the case rules of
  Unicode beyond ASCII are not modelled.
\<close>

definition lower_char :: "char \<Rightarrow> char" where
  "lower_char c =
    (case map_of (zip ''ABCDEFGHIJKLMNOPQRSTUVWXYZ'' ''abcdefghijklmnopqrstuvwxyz'') c of
       None \<Rightarrow> c | Some d \<Rightarrow> d)"

definition upper_char :: "char \<Rightarrow> char" where
  "upper_char c =
    (case map_of (zip ''abcdefghijklmnopqrstuvwxyz'' ''ABCDEFGHIJKLMNOPQRSTUVWXYZ'') c of
       None \<Rightarrow> c | Some d \<Rightarrow> d)"

definition lower :: "string \<Rightarrow> string" where
  "lower s = map lower_char s"

definition upper :: "string \<Rightarrow> string" where
  "upper s = map upper_char s"

text \<open>Every \<^verbatim>\<open>raise\<close> of the module is a \<^verbatim>\<open>ValueError\<close> with its message; \<open>OtherError\<close>
  stands for whatever the quote service raises.\<close>

datatype exn = ValueError string | OtherError string

text \<open>
  The quote service is a parameter: \<open>hist t\<close> is the last close of
  \<^verbatim>\<open>yf.Ticker(t).history(period="1d")\<close>, or \<open>None\<close> when the history is empty.
\<close>

type_synonym history = "string \<Rightarrow> real option"

definition fetch_stock_price :: "history \<Rightarrow> string \<Rightarrow> exn + real" where
  "fetch_stock_price hist t =
    (case hist t of
       None \<Rightarrow> Inl (ValueError (''No price data returned for STOCK '' @ t))
     | Some close \<Rightarrow> Inr close)"

definition fetch_crypto_price :: "history \<Rightarrow> string \<Rightarrow> exn + real" where
  "fetch_crypto_price hist symbol =
    (case hist (symbol @ ''-USD'') of
       None \<Rightarrow> Inl (ValueError (''No price data returned for CRYPTO '' @ symbol))
     | Some close \<Rightarrow> Inr close)"

definition fetch_cd_price :: "holding \<Rightarrow> real" where
  "fetch_cd_price h =
    (let cusip = upper (ticker h)
     in if cusip = ''BANKOFNY'' then 99.632 / 100.0 else cost_basis h)"

definition fetch_price :: "history \<Rightarrow> holding \<Rightarrow> exn + real" where
  "fetch_price hist h =
    (let atype = lower (asset_type h); t = ticker h
     in if atype = ''stock'' then fetch_stock_price hist t
        else if atype = ''crypto'' then fetch_crypto_price hist t
        else if atype \<in> set [''cd'', ''bond''] then Inr (fetch_cd_price h)
        else if atype = ''cash'' then Inr 1.0
        else Inl (ValueError (''Unknown asset type: '' @ atype)))"

section \<open>Fundamental data fetcher\<close>

text \<open>
  The fundamentals service is a parameter: \<open>info t\<close> is the dictionary
  \<^verbatim>\<open>yf.Ticker(t).info\<close>, read with \<^verbatim>\<open>info.get(key)\<close>, or the exception raised on
  the way to it.
\<close>

type_synonym info = "string \<Rightarrow> exn + (string \<Rightarrow> cell)"

definition fetch_fundamentals :: "info \<Rightarrow> string \<Rightarrow> exn + fundamentals" where
  "fetch_fundamentals yinfo t =
    (case yinfo t of
       Inl e \<Rightarrow> Inl e
     | Inr d \<Rightarrow> Inr
         \<lparr>pe = d ''trailingPE'',
          forward_pe = d ''forwardPE'',
          ps = d ''priceToSalesTrailing12Months'',
          profit_margin = d ''profitMargins'',
          revenue_growth = d ''revenueGrowth'',
          eps_growth = d ''earningsQuarterlyGrowth'',
          beta = d ''beta'',
          analyst_score = d ''recommendationMean'',
          target_price = d ''targetMeanPrice''\<rparr>)"

definition safe_fundamentals :: "info \<Rightarrow> holding \<Rightarrow> fundamentals" where
  "safe_fundamentals yinfo h =
    (if lower (asset_type h) \<noteq> ''stock'' then
       \<lparr>pe = None, forward_pe = None, ps = None, profit_margin = None,
        revenue_growth = None, eps_growth = None, beta = None, analyst_score = None,
        target_price = None\<rparr>
     else
       (case fetch_fundamentals yinfo (ticker h) of
          Inr f \<Rightarrow> f
        | Inl e \<Rightarrow>
            \<lparr>pe = None, forward_pe = None, ps = None, profit_margin = None,
             revenue_growth = None, eps_growth = None, beta = None, analyst_score = None,
             target_price = None\<rparr>))"

section \<open>The main function\<close>

text \<open>
  The sign bit of a float product is set when exactly one factor is negative, also when
  the product is zero: \<^verbatim>\<open>-10 * 0.0\<close> is \<^verbatim>\<open>-0.0\<close>. The numbers of a holding are
  reals, so a zero read from the file is \<^verbatim>\<open>0.0\<close>.
\<close>

definition neg_product :: "real \<Rightarrow> real \<Rightarrow> bool" where
  "neg_product a b = ((a < 0) \<noteq> (b < 0))"

text \<open>
  Division of two float columns: pandas divides by IEEE 754 and raises nothing. A zero
  divisor gives NaN for a zero dividend and otherwise an infinity whose sign is the
  dividend's sign for the divisor \<^verbatim>\<open>0.0\<close> and the opposite sign for \<^verbatim>\<open>-0.0\<close>;
  \<open>neg_zero\<close> is the sign bit of a zero divisor.
\<close>

definition fdiv :: "real \<Rightarrow> real \<Rightarrow> bool \<Rightarrow> fnum" where
  "fdiv a b neg_zero =
    (if b \<noteq> 0 then Fin (a / b)
     else if a = 0 then NaN
     else if (0 < a) \<noteq> neg_zero then PInf
     else NInf)"

text \<open>A float times a finite constant.\<close>

fun fmul :: "fnum \<Rightarrow> real \<Rightarrow> fnum" where
  "fmul (Fin x) c = Fin (x * c)"
| "fmul PInf c = (if 0 < c then PInf else if c < 0 then NInf else NaN)"
| "fmul NInf c = (if 0 < c then NInf else if c < 0 then PInf else NaN)"
| "fmul NaN c = NaN"

text \<open>
  \<^verbatim>\<open>Series.round(k)\<close>: numpy scales by \<open>10 ^ k\<close>, rounds to the nearest integer with
  ties to the even one, and scales back; the special values are kept.
\<close>

definition rint :: "real \<Rightarrow> int" where
  "rint x =
    (let f = \<lfloor>x\<rfloor>; d = x - of_int f
     in if d < 1 / 2 then f
        else if 1 / 2 < d then f + 1
        else if even f then f else f + 1)"

definition np_round :: "nat \<Rightarrow> real \<Rightarrow> real" where
  "np_round k x = of_int (rint (x * 10 ^ k)) / 10 ^ k"

fun fround :: "nat \<Rightarrow> fnum \<Rightarrow> fnum" where
  "fround k (Fin x) = Fin (np_round k x)"
| "fround k PInf = PInf"
| "fround k NInf = NInf"
| "fround k NaN = NaN"

text \<open>
  \<^verbatim>\<open>portfolio.apply(f, axis=1)\<close> for an \<open>f\<close> that may raise: the rows are visited in
  order and the first exception ends the run.
\<close>

fun apply_rows :: "('a \<Rightarrow> exn + 'b) \<Rightarrow> 'a list \<Rightarrow> exn + 'b list" where
  "apply_rows f [] = Inr []"
| "apply_rows f (x # xs) =
    (case f x of
       Inl e \<Rightarrow> Inl e
     | Inr y \<Rightarrow> (case apply_rows f xs of Inl e \<Rightarrow> Inl e | Inr ys \<Rightarrow> Inr (y # ys)))"

text \<open>The table after the price column and the four core metrics (before the weights).\<close>

record priced = holding +
  p_current_price :: real
  p_market_value :: real
  p_cost_value :: real
  p_pl_dollar :: real
  p_pl_pct :: fnum

definition core_metrics :: "holding \<Rightarrow> real \<Rightarrow> priced" where
  "core_metrics h price =
    (let market_value = shares h * price;
         cost_value = shares h * cost_basis h;
         pl_dollar = market_value - cost_value;
         pl_pct = fmul (fdiv pl_dollar cost_value (neg_product (shares h) (cost_basis h))) 100
     in holding.extend h
          \<lparr>p_current_price = price, p_market_value = market_value,
           p_cost_value = cost_value, p_pl_dollar = pl_dollar, p_pl_pct = pl_pct\<rparr>)"

text \<open>
  \<^verbatim>\<open>portfolio["market_value"].sum(skipna=True)\<close>: the market values are finite, so
  nothing is skipped. The sum is the exact sum; the source adds binary floats, whose sum
  can differ from it in the last place and with the order of the rows.
\<close>

definition market_value_sum :: "priced list \<Rightarrow> real" where
  "market_value_sum tbl = sum_list (map p_market_value tbl)"

text \<open>
  A total of zero under a market value that is not zero comes from values that cancel,
  and such a sum is \<^verbatim>\<open>0.0\<close>; under a market value of zero the quotient is NaN for
  either sign of the total.
\<close>

definition weight :: "real \<Rightarrow> priced \<Rightarrow> fnum" where
  "weight total_value p = fmul (fdiv (p_market_value p) total_value False) 100"

text \<open>
  \<^verbatim>\<open>pd.DataFrame(fundamentals.tolist())\<close>: a column in which some entry is a number is
  a float column, and its \<^verbatim>\<open>None\<close> entries become NaN; a column of \<^verbatim>\<open>None\<close> only
  keeps them.
\<close>

definition frame_column :: "cell list \<Rightarrow> cell list" where
  "frame_column cs =
    (if list_ex (\<lambda>c. c \<noteq> None) cs
     then map (\<lambda>c. case c of None \<Rightarrow> Some NaN | Some x \<Rightarrow> Some x) cs
     else cs)"

definition fundamentals_df :: "fundamentals list \<Rightarrow> fundamentals list" where
  "fundamentals_df fs =
    (let n = length fs;
         c1 = frame_column (map pe fs); c2 = frame_column (map forward_pe fs);
         c3 = frame_column (map ps fs); c4 = frame_column (map profit_margin fs);
         c5 = frame_column (map revenue_growth fs); c6 = frame_column (map eps_growth fs);
         c7 = frame_column (map beta fs); c8 = frame_column (map analyst_score fs);
         c9 = frame_column (map target_price fs)
     in map (\<lambda>i. \<lparr>pe = c1 ! i, forward_pe = c2 ! i, ps = c3 ! i, profit_margin = c4 ! i,
                    revenue_growth = c5 ! i, eps_growth = c6 ! i, beta = c7 ! i,
                    analyst_score = c8 ! i, target_price = c9 ! i\<rparr>) [0..<n])"

definition mk_table_row :: "real \<Rightarrow> priced \<Rightarrow> fundamentals \<Rightarrow> row" where
  "mk_table_row total_value p f =
    \<lparr>asset_type = asset_type p, ticker = ticker p, shares = shares p,
     cost_basis = cost_basis p,
     current_price = p_current_price p, market_value = p_market_value p,
     cost_value = p_cost_value p, pl_dollar = p_pl_dollar p, pl_pct = p_pl_pct p,
     weight_pct = weight total_value p, fund = f\<rparr>"

text \<open>The finished row: the table row with its score, decision and insights.\<close>

record scored = row +
  score :: int
  decision :: string
  insights :: string

text \<open>Scoring reads the unrounded row; the rounding of the columns comes last.\<close>

definition finish_row :: "row \<Rightarrow> scored" where
  "finish_row r =
    (let s = score_position r; d = decision_label s; i = build_insight r
     in \<lparr>asset_type = asset_type r, ticker = ticker r,
         shares = np_round 3 (shares r), cost_basis = cost_basis r,
         current_price = np_round 2 (current_price r),
         market_value = np_round 2 (market_value r),
         cost_value = np_round 2 (cost_value r),
         pl_dollar = np_round 2 (pl_dollar r),
         pl_pct = fround 2 (pl_pct r),
         weight_pct = fround 2 (weight_pct r),
         fund = fund r,
         score = s, decision = d, insights = i\<rparr>)"

text \<open>The table as scored: every column computed, none rounded yet.\<close>

definition table_rows :: "info \<Rightarrow> holding list \<Rightarrow> real list \<Rightarrow> row list" where
  "table_rows yinfo portfolio prices =
    (let tbl = map2 core_metrics portfolio prices;
         total_value = market_value_sum tbl;
         fs = fundamentals_df (map (safe_fundamentals yinfo) portfolio)
     in map2 (mk_table_row total_value) tbl fs)"

definition load_and_process_portfolio ::
    "history \<Rightarrow> info \<Rightarrow> holding list \<Rightarrow> exn + scored list" where
  "load_and_process_portfolio hist yinfo portfolio =
    (case apply_rows (fetch_price hist) portfolio of
       Inl e \<Rightarrow> Inl e
     | Inr prices \<Rightarrow> Inr (map finish_row (table_rows yinfo portfolio prices)))"

section \<open>The claims in the words of the specification\<close>

text \<open>
  A fundamentals field is present when it holds a number: \<^verbatim>\<open>None\<close> and the missing
  marker NaN are absent.
\<close>

fun present :: "cell \<Rightarrow> bool" where
  "present None = False"
| "present (Some NaN) = False"
| "present (Some (Fin x)) = True"
| "present (Some PInf) = True"
| "present (Some NInf) = True"

text \<open>
  The score as the specification words it: six contributions, a fundamentals condition
  deciding by the comparison alone whenever the field is present, at 0 as well.
\<close>

definition claimed_score :: "row \<Rightarrow> int" where
  "claimed_score r =
    (if fgt (pl_pct r) 80 then - 1 else 0)
    + (if fgt (weight_pct r) 7 then - 1 else 0)
    + (if flt (pl_pct r) (- 20) then - 1 else 0)
    + (if present (pe (fund r)) \<and> cell_gt (pe (fund r)) 40 then - 1 else 0)
    + (if present (forward_pe (fund r)) \<and> cell_lt (forward_pe (fund r)) 20 then 1 else 0)
    + (if present (analyst_score (fund r)) \<and> cell_lt (analyst_score (fund r)) (5 / 2)
       then 1 else 0)"

text \<open>The phrases of a list of (condition, phrase) pairs whose condition holds, in order.\<close>

definition matched :: "(bool \<times> string) list \<Rightarrow> string list" where
  "matched cs = map snd (filter fst cs)"

definition render :: "string list \<Rightarrow> string" where
  "render phrases = (if phrases = [] then ''Stable'' else join ''; '' phrases)"

text \<open>The insight as the specification words it.\<close>

definition claimed_insight :: "row \<Rightarrow> string" where
  "claimed_insight r =
    render (matched
      [(fgt (pl_pct r) 80, ''Large unrealized gain''),
       (flt (pl_pct r) (- 20), ''Large loss''),
       (fgt (weight_pct r) 7, ''High concentration''),
       (present (pe (fund r)) \<and> cell_gt (pe (fund r)) 40, ''High valuation''),
       (present (analyst_score (fund r)) \<and> cell_lt (analyst_score (fund r)) 2,
        ''Analysts bullish'')])"

text \<open>
  The weight of the holding at position \<open>i\<close> as the specification words it: its market
  value, shares times price, over the total market value, times 100.
\<close>

definition claimed_weight :: "holding list \<Rightarrow> real list \<Rightarrow> nat \<Rightarrow> real" where
  "claimed_weight hs prices i =
    shares (hs ! i) * prices ! i / sum_list (map2 (\<lambda>h p. shares h * p) hs prices) * 100"


text \<open>A cell that holds the number zero.\<close>

definition is_zero :: "cell \<Rightarrow> bool" where
  "is_zero c = (c = Some (Fin 0))"

section \<open>Example rows\<close>

text \<open>Rows for examples: a holding with neutral metrics and no fundamentals.\<close>

definition no_fundamentals :: fundamentals where
  "no_fundamentals =
    \<lparr>pe = None, forward_pe = None, ps = None, profit_margin = None, revenue_growth = None,
     eps_growth = None, beta = None, analyst_score = None, target_price = None\<rparr>"

definition mk_row :: "fnum \<Rightarrow> fnum \<Rightarrow> cell \<Rightarrow> cell \<Rightarrow> cell \<Rightarrow> row" where
  "mk_row pl w p fp a =
    \<lparr>asset_type = ''stock'', ticker = ''ABC'', shares = 1, cost_basis = 1,
     current_price = 1, market_value = 1, cost_value = 1, pl_dollar = 0,
     pl_pct = pl, weight_pct = w,
     fund = no_fundamentals\<lparr>pe := p, forward_pe := fp, analyst_score := a\<rparr>\<rparr>"

text \<open>
  The row of the example: pl_pct 10, weight_pct 8, pe 45, forward_pe 15, analyst_score 2.0.
\<close>

definition example_row :: row where
  "example_row = mk_row (Fin 10) (Fin 8) (Some (Fin 45)) (Some (Fin 15)) (Some (Fin 2))"

text \<open>Holdings and services for examples: a quote service and a fundamentals service
  that have nothing for any ticker.\<close>

definition mk_holding :: "string \<Rightarrow> string \<Rightarrow> real \<Rightarrow> real \<Rightarrow> holding" where
  "mk_holding a t s c = \<lparr>asset_type = a, ticker = t, shares = s, cost_basis = c\<rparr>"

definition no_quotes :: history where
  "no_quotes t = None"

definition no_info :: info where
  "no_info t = Inl (OtherError ''unavailable'')"

section \<open>The decision thresholds\<close>

text \<open>
  C2. For every integer score the label is one of the five, fixed by the thresholds:
  Strong Buy from 2 upwards, Buy / Hold at 1, Review at 0, Trim at -1, Sell from -2
  downwards. The label is a function of the score alone.
\<close>

theorem decision_label_thresholds:
  "(2 \<le> s \<longrightarrow> decision_label s = ''Strong Buy'') \<and>
   (s = 1 \<longrightarrow> decision_label s = ''Buy / Hold'') \<and>
   (s = 0 \<longrightarrow> decision_label s = ''Review'') \<and>
   (s = - 1 \<longrightarrow> decision_label s = ''Trim'') \<and>
   (s \<le> - 2 \<longrightarrow> decision_label s = ''Sell'') \<and>
   decision_label s \<in> {''Strong Buy'', ''Buy / Hold'', ''Review'', ''Trim'', ''Sell''}"
  by (simp add: decision_label_def)

theorem decision_label_thresholds_witness:
  "decision_label 5 = ''Strong Buy'' \<and> decision_label 1 = ''Buy / Hold'' \<and>
   decision_label 0 = ''Review'' \<and> decision_label (- 1) = ''Trim'' \<and>
   decision_label (- 4) = ''Sell''"
  using decision_label_thresholds [of 5] decision_label_thresholds [of 1]
    decision_label_thresholds [of 0] decision_label_thresholds [of "- 1"]
    decision_label_thresholds [of "- 4"]
  by simp

section \<open>A worked example\<close>

text \<open>
  C5, as stated, fails: the insight of the example row is not
  "High concentration; High valuation; Analysts bullish", because the analyst score 2.0
  is not below the insight threshold 2.
\<close>

theorem example_insight_not_bullish:
  "build_insight example_row \<noteq> ''High concentration; High valuation; Analysts bullish''"
  by (simp add: build_insight_def example_row_def mk_row_def no_fundamentals_def)

text \<open>
  C5, amended. The example row scores 0 (weight -1, pe -1, forward_pe +1, analyst +1), is
  labelled Review, and its insight is "High concentration; High valuation".
\<close>

theorem example_review:
  "score_position example_row = 0 \<and>
   decision_label (score_position example_row) = ''Review'' \<and>
   build_insight example_row = ''High concentration; High valuation''"
  by (simp add: score_position_def build_insight_def decision_label_def example_row_def
      mk_row_def no_fundamentals_def)

section \<open>The score as a sum of contributions\<close>

text \<open>
  The guard \<^verbatim>\<open>row.get(key) and ...\<close> lets a cell through when it is present and not
  the number zero.
\<close>

lemma truthy_lt: "(truthy c \<and> cell_lt c t) = (present c \<and> \<not> is_zero c \<and> cell_lt c t)"
  by (cases c rule: truthy.cases) (simp_all add: is_zero_def)

lemma truthy_gt: "(truthy c \<and> cell_gt c t) = (present c \<and> \<not> is_zero c \<and> cell_gt c t)"
  by (cases c rule: truthy.cases) (simp_all add: is_zero_def)

lemma zero_not_gt:
  "0 \<le> t \<Longrightarrow> (present c \<and> \<not> is_zero c \<and> cell_gt c t) = (present c \<and> cell_gt c t)"
  by (cases c rule: truthy.cases) (auto simp add: is_zero_def)

lemma truthy_pe: "(truthy c \<and> cell_gt c 40) = (present c \<and> cell_gt c 40)"
  by (simp add: truthy_gt zero_not_gt)

text \<open>
  C1, as stated, fails: with forward_pe present and equal to 0 (and nothing else
  matching) the comparison 0 < 20 alone would add 1, but the score is 0.
\<close>

theorem score_zero_forward_pe:
  "score_position (mk_row (Fin 0) (Fin 0) None (Some (Fin 0)) None) = 0 \<and>
   claimed_score (mk_row (Fin 0) (Fin 0) None (Some (Fin 0)) None) = 1"
  by (simp add: score_position_def claimed_score_def mk_row_def no_fundamentals_def)

text \<open>
  C1, amended. The score is the sum of six independent contributions: -1 if pl_pct > 80,
  -1 if weight_pct > 7, -1 if pl_pct < -20, -1 if pe is present and pe > 40, +1 if
  forward_pe is present, not zero and below 20, +1 if analyst_score is present, not zero
  and below 2.5. An absent field and a field holding 0 contribute nothing.
\<close>

theorem score_position_sum:
  "score_position r =
    (if fgt (pl_pct r) 80 then - 1 else 0)
    + (if fgt (weight_pct r) 7 then - 1 else 0)
    + (if flt (pl_pct r) (- 20) then - 1 else 0)
    + (if present (pe (fund r)) \<and> cell_gt (pe (fund r)) 40 then - 1 else 0)
    + (if present (forward_pe (fund r)) \<and> \<not> is_zero (forward_pe (fund r))
          \<and> cell_lt (forward_pe (fund r)) 20 then 1 else 0)
    + (if present (analyst_score (fund r)) \<and> \<not> is_zero (analyst_score (fund r))
          \<and> cell_lt (analyst_score (fund r)) (5 / 2) then 1 else 0)"
  unfolding score_position_def Let_def truthy_pe truthy_lt by simp

section \<open>The insight string\<close>

text \<open>
  C4, as stated, fails: with analyst_score present and equal to 0 (and nothing else
  matching) the phrase "Analysts bullish" would be matched, but the insight is "Stable".
\<close>

theorem insight_zero_analyst:
  "build_insight (mk_row (Fin 0) (Fin 0) None None (Some (Fin 0))) = ''Stable'' \<and>
   claimed_insight (mk_row (Fin 0) (Fin 0) None None (Some (Fin 0))) = ''Analysts bullish''"
  by (simp add: build_insight_def claimed_insight_def render_def matched_def mk_row_def
      no_fundamentals_def)

text \<open>
  C4, amended. The insight is the phrases of the matched conditions joined by "; " in the
  fixed order Large unrealized gain (pl_pct > 80), Large loss (pl_pct < -20), High
  concentration (weight_pct > 7), High valuation (pe present and pe > 40), Analysts
  bullish (analyst_score present, not zero and below 2), and "Stable" when none matches.
\<close>

theorem build_insight_phrases:
  "build_insight r =
    render (matched
      [(fgt (pl_pct r) 80, ''Large unrealized gain''),
       (flt (pl_pct r) (- 20), ''Large loss''),
       (fgt (weight_pct r) 7, ''High concentration''),
       (present (pe (fund r)) \<and> cell_gt (pe (fund r)) 40, ''High valuation''),
       (present (analyst_score (fund r)) \<and> \<not> is_zero (analyst_score (fund r))
          \<and> cell_lt (analyst_score (fund r)) 2, ''Analysts bullish'')])"
  unfolding build_insight_def Let_def truthy_pe truthy_lt render_def matched_def by simp

section \<open>Zero is treated as absent\<close>

text \<open>
  C10. A pe, forward_pe or analyst_score holding exactly 0 gives the same score and the
  same insight as the field being absent: the condition on it is skipped.
\<close>

theorem zero_is_skipped:
  "score_position (r\<lparr>fund := (fund r)\<lparr>pe := Some (Fin 0)\<rparr>\<rparr>)
     = score_position (r\<lparr>fund := (fund r)\<lparr>pe := None\<rparr>\<rparr>) \<and>
   score_position (r\<lparr>fund := (fund r)\<lparr>forward_pe := Some (Fin 0)\<rparr>\<rparr>)
     = score_position (r\<lparr>fund := (fund r)\<lparr>forward_pe := None\<rparr>\<rparr>) \<and>
   score_position (r\<lparr>fund := (fund r)\<lparr>analyst_score := Some (Fin 0)\<rparr>\<rparr>)
     = score_position (r\<lparr>fund := (fund r)\<lparr>analyst_score := None\<rparr>\<rparr>) \<and>
   build_insight (r\<lparr>fund := (fund r)\<lparr>pe := Some (Fin 0)\<rparr>\<rparr>)
     = build_insight (r\<lparr>fund := (fund r)\<lparr>pe := None\<rparr>\<rparr>) \<and>
   build_insight (r\<lparr>fund := (fund r)\<lparr>forward_pe := Some (Fin 0)\<rparr>\<rparr>)
     = build_insight (r\<lparr>fund := (fund r)\<lparr>forward_pe := None\<rparr>\<rparr>) \<and>
   build_insight (r\<lparr>fund := (fund r)\<lparr>analyst_score := Some (Fin 0)\<rparr>\<rparr>)
     = build_insight (r\<lparr>fund := (fund r)\<lparr>analyst_score := None\<rparr>\<rparr>)"
  by (simp add: score_position_def build_insight_def)

section \<open>Price by asset type\<close>

lemma lower_simps [simp]: "lower [] = []" "lower (c # cs) = lower_char c # lower cs"
  by (simp_all add: lower_def)

lemma upper_simps [simp]: "upper [] = []" "upper (c # cs) = upper_char c # upper cs"
  by (simp_all add: upper_def)

text \<open>
  C6, as stated, fails: asset type and ticker are matched after case folding. A cd with
  ticker "bankofny", which is not the string "BANKOFNY", is priced at the override and not
  at its cost basis 100; the asset type "CASH", which is none of the five lower-case
  names, is priced at 1.0 and raises nothing.
\<close>

theorem fetch_price_case_insensitive:
  "fetch_price no_quotes (mk_holding ''cd'' ''bankofny'' 1 100) = Inr 0.99632 \<and>
   ticker (mk_holding ''cd'' ''bankofny'' 1 100) \<noteq> ''BANKOFNY'' \<and>
   fetch_price no_quotes (mk_holding ''cd'' ''bankofny'' 1 100)
     \<noteq> Inr (cost_basis (mk_holding ''cd'' ''bankofny'' 1 100)) \<and>
   asset_type (mk_holding ''CASH'' ''USD'' 1 1)
     \<notin> set [''stock'', ''crypto'', ''cd'', ''bond'', ''cash''] \<and>
   fetch_price no_quotes (mk_holding ''CASH'' ''USD'' 1 1) = Inr 1"
  by (simp add: fetch_price_def fetch_cd_price_def mk_holding_def lower_char_def upper_char_def)

text \<open>
  C6, amended. With the asset type lower-cased and the ticker upper-cased before they
  are compared: cash is priced at 1.0; cd and bond are priced at 0.99632 when the ticker
  is BANKOFNY and at cost_basis otherwise; an asset type outside stock, crypto, cd, bond
  and cash raises a ValueError naming it.
\<close>

theorem fetch_price_by_type:
  "(lower (asset_type h) = ''cash'' \<longrightarrow> fetch_price hist h = Inr 1) \<and>
   (lower (asset_type h) \<in> {''cd'', ''bond''} \<longrightarrow>
      fetch_price hist h =
        Inr (if upper (ticker h) = ''BANKOFNY'' then 0.99632 else cost_basis h)) \<and>
   (lower (asset_type h) \<notin> {''stock'', ''crypto'', ''cd'', ''bond'', ''cash''} \<longrightarrow>
      fetch_price hist h = Inl (ValueError (''Unknown asset type: '' @ lower (asset_type h))))"
  by (auto simp add: fetch_price_def fetch_cd_price_def Let_def)

theorem fetch_price_by_type_witness:
  "fetch_price no_quotes (mk_holding ''cash'' ''USD'' 5 1) = Inr 1 \<and>
   fetch_price no_quotes (mk_holding ''cd'' ''BANKOFNY'' 1 100) = Inr 0.99632 \<and>
   fetch_price no_quotes (mk_holding ''bond'' ''T10'' 1 100) = Inr 100 \<and>
   fetch_price no_quotes (mk_holding ''option'' ''X'' 1 1)
     = Inl (ValueError ''Unknown asset type: option'')"
  using fetch_price_by_type [of "mk_holding ''cash'' ''USD'' 5 1" no_quotes]
    fetch_price_by_type [of "mk_holding ''cd'' ''BANKOFNY'' 1 100" no_quotes]
    fetch_price_by_type [of "mk_holding ''bond'' ''T10'' 1 100" no_quotes]
    fetch_price_by_type [of "mk_holding ''option'' ''X'' 1 1" no_quotes]
  by (simp add: mk_holding_def lower_char_def upper_char_def)

section \<open>The run over the whole table\<close>

lemma apply_rows_Inr:
  "apply_rows f xs = Inr ys \<Longrightarrow> length ys = length xs \<and> (\<forall>i<length xs. f (xs ! i) = Inr (ys ! i))"
proof (induction xs arbitrary: ys)
  case Nil
  then show ?case by simp
next
  case (Cons x xs)
  from Cons.prems obtain y ys' where y: "f x = Inr y" and ys': "apply_rows f xs = Inr ys'"
    and ys: "ys = y # ys'"
    by (auto split: sum.splits)
  from Cons.IH [OF ys'] have "length ys' = length xs"
    and nth: "\<forall>i<length xs. f (xs ! i) = Inr (ys' ! i)" by simp_all
  then show ?case using y ys by (auto simp add: nth_Cons split: nat.splits)
qed

lemma apply_rows_isl: "isl (apply_rows f xs) = list_ex (\<lambda>x. isl (f x)) xs"
  by (induction xs) (auto split: sum.splits)

lemma length_fundamentals_df [simp]: "length (fundamentals_df fs) = length fs"
  by (simp add: fundamentals_df_def Let_def)

lemma length_table_rows:
  "length prices = length hs \<Longrightarrow> length (table_rows yinfo hs prices) = length hs"
  by (simp add: table_rows_def Let_def)

lemma nth_table_rows:
  assumes "length prices = length hs" "i < length hs"
  shows "table_rows yinfo hs prices ! i =
    mk_table_row (market_value_sum (map2 core_metrics hs prices))
      (core_metrics (hs ! i) (prices ! i))
      (fundamentals_df (map (safe_fundamentals yinfo) hs) ! i)"
  using assms by (simp add: table_rows_def Let_def)

lemma pl_pct_finish_row [simp]: "pl_pct (finish_row r) = fround 2 (pl_pct r)"
  by (simp add: finish_row_def Let_def)

lemma weight_pct_finish_row [simp]: "weight_pct (finish_row r) = fround 2 (weight_pct r)"
  by (simp add: finish_row_def Let_def)

lemma pl_pct_mk_table_row [simp]: "pl_pct (mk_table_row t p f) = p_pl_pct p"
  by (simp add: mk_table_row_def)

lemma weight_pct_mk_table_row [simp]: "weight_pct (mk_table_row t p f) = weight t p"
  by (simp add: mk_table_row_def)

lemma pl_pct_zero_cost:
  assumes "shares h * cost_basis h = 0"
  shows "p_pl_pct (core_metrics h price) =
     (if shares h * price = 0 then NaN
      else if (0 < shares h * price) \<noteq> neg_product (shares h) (cost_basis h) then PInf
      else NInf)"
proof -
  have "p_pl_pct (core_metrics h price)
      = fmul (fdiv (shares h * price - shares h * cost_basis h) (shares h * cost_basis h)
          (neg_product (shares h) (cost_basis h))) 100"
    by (simp add: core_metrics_def Let_def holding.defs)
  also have "\<dots> = fmul (fdiv (shares h * price) 0 (neg_product (shares h) (cost_basis h))) 100"
    by (simp only: assms diff_zero)
  also have "\<dots> = (if shares h * price = 0 then NaN
      else if (0 < shares h * price) \<noteq> neg_product (shares h) (cost_basis h) then PInf
      else NInf)"
    by (simp add: fdiv_def)
  finally show ?thesis .
qed

lemma fround_special [simp]:
  "fround k (if a then NaN else if b then PInf else NInf) = (if a then NaN else if b then PInf else NInf)"
  by simp

section \<open>Profit and loss of a holding that cost nothing\<close>

text \<open>
  C3, as stated, fails: ten units of cash with cost basis 0 have cost_value 0 and a
  pl_pct of plus infinity in the finished table, not an absent value.
\<close>

theorem pl_pct_infinite:
  "map_sum id (map pl_pct)
     (load_and_process_portfolio no_quotes no_info [mk_holding ''cash'' ''USD'' 10 0])
   = Inr [PInf]"
  by (simp add: load_and_process_portfolio_def fetch_price_def mk_holding_def lower_char_def
      table_rows_def Let_def core_metrics_def fdiv_def neg_product_def holding.defs
      fundamentals_df_def)

text \<open>
  C3, amended. When every price is resolved the run returns a table and raises no
  arithmetic error; for a holding with cost_value = 0 the reported pl_pct is never a
  finite number: it is NaN when the holding's market value is 0 as well, and an infinity
  otherwise.
\<close>

theorem pl_pct_zero_cost_value:
  assumes "apply_rows (fetch_price hist) hs = Inr prices"
    and "i < length hs"
    and "shares (hs ! i) * cost_basis (hs ! i) = 0"
  shows "\<exists>out. load_and_process_portfolio hist yinfo hs = Inr out \<and> length out = length hs \<and>
     (shares (hs ! i) * prices ! i = 0 \<longrightarrow> pl_pct (out ! i) = NaN) \<and>
     (shares (hs ! i) * prices ! i \<noteq> 0 \<longrightarrow> pl_pct (out ! i) \<in> {PInf, NInf})"
proof -
  from apply_rows_Inr [OF assms(1)] have len: "length prices = length hs" by simp
  have out: "load_and_process_portfolio hist yinfo hs
      = Inr (map finish_row (table_rows yinfo hs prices))"
    by (simp add: load_and_process_portfolio_def assms(1))
  have "pl_pct (map finish_row (table_rows yinfo hs prices) ! i)
      = fround 2 (p_pl_pct (core_metrics (hs ! i) (prices ! i)))"
    using len assms(2) by (simp add: length_table_rows nth_table_rows)
  also have "\<dots> = (if shares (hs ! i) * prices ! i = 0 then NaN
        else if (0 < shares (hs ! i) * prices ! i)
            \<noteq> neg_product (shares (hs ! i)) (cost_basis (hs ! i)) then PInf
        else NInf)"
    by (simp only: pl_pct_zero_cost [OF assms(3)] fround_special)
  finally have "(shares (hs ! i) * prices ! i = 0
        \<longrightarrow> pl_pct (map finish_row (table_rows yinfo hs prices) ! i) = NaN) \<and>
     (shares (hs ! i) * prices ! i \<noteq> 0
        \<longrightarrow> pl_pct (map finish_row (table_rows yinfo hs prices) ! i) \<in> {PInf, NInf})"
    by simp
  then show ?thesis using out len by (simp add: length_table_rows)
qed

theorem pl_pct_zero_cost_value_witness:
  "\<exists>out. load_and_process_portfolio no_quotes no_info
      [mk_holding ''cash'' ''USD'' 0 1, mk_holding ''cash'' ''EUR'' 10 0] = Inr out \<and>
    pl_pct (out ! 0) = NaN \<and> pl_pct (out ! 1) \<in> {PInf, NInf}"
proof -
  have a: "apply_rows (fetch_price no_quotes)
      [mk_holding ''cash'' ''USD'' 0 1, mk_holding ''cash'' ''EUR'' 10 0] = Inr [1, 1]"
    by (simp add: fetch_price_def mk_holding_def lower_char_def)
  show ?thesis
    using pl_pct_zero_cost_value [OF a, of 0 no_info]
      pl_pct_zero_cost_value [OF a, of 1 no_info]
    by (auto simp add: mk_holding_def)
qed

section \<open>Fundamentals that are not available\<close>

text \<open>
  C7. For a holding that is not a stock, and for a stock whose fundamentals fetch raises,
  safe_fundamentals returns the record with all nine fields absent. It is a total
  function, so it never raises: the run fails exactly when a price fetch fails, whatever
  the fundamentals service does, and every holding of the batch gets its record.
\<close>

theorem safe_fundamentals_absent:
  "(lower (asset_type h) \<noteq> ''stock'' \<or> isl (fetch_fundamentals yinfo (ticker h)) \<longrightarrow>
      safe_fundamentals yinfo h =
        \<lparr>pe = None, forward_pe = None, ps = None, profit_margin = None,
         revenue_growth = None, eps_growth = None, beta = None, analyst_score = None,
         target_price = None\<rparr>) \<and>
   isl (load_and_process_portfolio hist yinfo hs) = isl (apply_rows (fetch_price hist) hs) \<and>
   length (map (safe_fundamentals yinfo) hs) = length hs"
  by (auto simp add: safe_fundamentals_def fetch_fundamentals_def load_and_process_portfolio_def
      split: sum.splits)

theorem safe_fundamentals_absent_witness:
  "safe_fundamentals no_info (mk_holding ''stock'' ''ABC'' 1 1) =
        \<lparr>pe = None, forward_pe = None, ps = None, profit_margin = None,
         revenue_growth = None, eps_growth = None, beta = None, analyst_score = None,
         target_price = None\<rparr> \<and>
   safe_fundamentals no_info (mk_holding ''cd'' ''ABC'' 1 1) =
        \<lparr>pe = None, forward_pe = None, ps = None, profit_margin = None,
         revenue_growth = None, eps_growth = None, beta = None, analyst_score = None,
         target_price = None\<rparr>"
  using safe_fundamentals_absent [of "mk_holding ''stock'' ''ABC'' 1 1" no_info]
    safe_fundamentals_absent [of "mk_holding ''cd'' ''ABC'' 1 1" no_info]
  by (simp add: mk_holding_def no_info_def fetch_fundamentals_def lower_char_def)

section \<open>Portfolio weights\<close>

lemma rint_error: "\<bar>of_int (rint x) - x\<bar> \<le> 1 / 2"
proof -
  have "of_int \<lfloor>x\<rfloor> \<le> x" "x < of_int \<lfloor>x\<rfloor> + 1" by linarith+
  then show ?thesis by (auto simp add: rint_def Let_def)
qed

lemma np_round_error: "\<bar>np_round 2 x - x\<bar> \<le> 1 / 200"
proof -
  have "\<bar>of_int (rint (x * 100)) - x * 100\<bar> \<le> 1 / 2" by (rule rint_error)
  then show ?thesis by (simp add: np_round_def abs_le_iff field_simps)
qed

lemma sum_list_close:
  fixes f g :: "'a \<Rightarrow> real"
  assumes "\<And>x. \<bar>f x - g x\<bar> \<le> e"
  shows "\<bar>sum_list (map f xs) - sum_list (map g xs)\<bar> \<le> real (length xs) * e"
proof (induction xs)
  case Nil
  then show ?case by simp
next
  case (Cons x xs)
  have "\<bar>f x - g x\<bar> \<le> e" by (rule assms)
  with Cons.IH show ?case by (simp add: algebra_simps abs_le_iff)
qed

lemma sum_list_scaled:
  fixes f :: "'a \<Rightarrow> real"
  shows "sum_list (map (\<lambda>p. f p / t * 100) xs) = sum_list (map f xs) / t * 100"
  by (induction xs) (simp_all add: add_divide_distrib distrib_right)

lemma weight_finite: "t \<noteq> 0 \<Longrightarrow> weight t p = Fin (p_market_value p / t * 100)"
  by (simp add: weight_def fdiv_def)

lemma weights_of_table:
  assumes "length prices = length hs"
  shows "map weight_pct (table_rows yinfo hs prices)
    = map (weight (market_value_sum (map2 core_metrics hs prices))) (map2 core_metrics hs prices)"
  using assms
  by (intro nth_equalityI) (simp_all add: length_table_rows nth_table_rows)

lemma market_values_of_table:
  assumes "length prices = length hs"
  shows "map p_market_value (map2 core_metrics hs prices) = map2 (\<lambda>h p. shares h * p) hs prices"
  using assms
  by (intro nth_equalityI) (simp_all add: core_metrics_def Let_def holding.defs)

lemma claimed_weights_of_table:
  assumes "length prices = length hs"
  shows "map (claimed_weight hs prices) [0..<length hs]
    = map (\<lambda>p. p_market_value p / market_value_sum (map2 core_metrics hs prices) * 100)
        (map2 core_metrics hs prices)"
proof -
  have t: "market_value_sum (map2 core_metrics hs prices)
      = sum_list (map2 (\<lambda>h p. shares h * p) hs prices)"
    by (simp only: market_value_sum_def market_values_of_table [OF assms])
  have mv: "p_market_value (core_metrics h p) = shares h * p" for h p
    by (simp add: core_metrics_def Let_def holding.defs)
  show ?thesis
    unfolding t using assms
    by (intro nth_equalityI) (simp_all add: claimed_weight_def mv)
qed

text \<open>
  C8. For a non-empty portfolio whose prices are all resolved and whose total market
  value is positive, the run returns one row per holding; the weight of each holding is
  its market value over the total market value times 100, and these weights sum to 100.
  In the returned table each weight is rounded to two decimals, and the rounded weights
  sum to 100 within 0.005 per holding.
\<close>

theorem weights_sum_to_100:
  assumes "apply_rows (fetch_price hist) hs = Inr prices"
    and "hs \<noteq> []"
    and "0 < market_value_sum (map2 core_metrics hs prices)"
  shows "\<exists>out.
    load_and_process_portfolio hist yinfo hs = Inr out \<and> length out = length hs \<and>
    length (table_rows yinfo hs prices) = length hs \<and>
    (\<forall>i<length hs.
       weight_pct (table_rows yinfo hs prices ! i) = Fin (claimed_weight hs prices i) \<and>
       weight_pct (out ! i) = Fin (np_round 2 (claimed_weight hs prices i))) \<and>
    sum_list (map (claimed_weight hs prices) [0..<length hs]) = 100 \<and>
    \<bar>sum_list (map (\<lambda>i. np_round 2 (claimed_weight hs prices i)) [0..<length hs]) - 100\<bar>
      \<le> real (length hs) / 200"
proof -
  define tbl where "tbl = map2 core_metrics hs prices"
  define t where "t = market_value_sum tbl"
  define ws where "ws = map (claimed_weight hs prices) [0..<length hs]"
  from apply_rows_Inr [OF assms(1)] have len: "length prices = length hs" by simp
  have t: "0 < t" using assms(3) by (simp add: t_def tbl_def)
  have ws: "ws = map (\<lambda>p. p_market_value p / t * 100) tbl"
    unfolding ws_def t_def tbl_def by (rule claimed_weights_of_table [OF len])
  have lt: "length (table_rows yinfo hs prices) = length hs"
    by (rule length_table_rows [OF len])
  have "map weight_pct (table_rows yinfo hs prices) = map Fin ws"
    using t by (simp add: weights_of_table [OF len] ws t_def tbl_def weight_finite)
  then have w: "weight_pct (table_rows yinfo hs prices ! i) = Fin (claimed_weight hs prices i)"
    if "i < length hs" for i
    using that lt by (metis (no_types, lifting) add_0 length_map length_upt minus_nat.diff_0
        nth_map nth_upt ws_def)
  have "sum_list ws = sum_list (map p_market_value tbl) / t * 100"
    unfolding ws by (rule sum_list_scaled)
  also have "\<dots> = 100" using t by (simp add: t_def market_value_sum_def)
  finally have s: "sum_list ws = 100" .
  have out: "load_and_process_portfolio hist yinfo hs
      = Inr (map finish_row (table_rows yinfo hs prices))"
    by (simp add: load_and_process_portfolio_def assms(1))
  have r: "weight_pct (map finish_row (table_rows yinfo hs prices) ! i)
      = Fin (np_round 2 (claimed_weight hs prices i))" if "i < length hs" for i
    using that lt by (simp add: w)
  have "\<bar>sum_list (map (np_round 2) ws) - sum_list (map (\<lambda>x. x) ws)\<bar>
      \<le> real (length ws) * (1 / 200)"
    by (rule sum_list_close) (rule np_round_error)
  then have e: "\<bar>sum_list (map (\<lambda>i. np_round 2 (claimed_weight hs prices i)) [0..<length hs])
      - 100\<bar> \<le> real (length hs) / 200"
    using s by (simp add: ws_def comp_def)
  show ?thesis
    using out lt w r s e by (simp add: ws_def)
qed

theorem weights_sum_to_100_witness:
  "\<exists>out.
    load_and_process_portfolio no_quotes no_info
       [mk_holding ''cash'' ''USD'' 1 1, mk_holding ''cd'' ''X1'' 3 1] = Inr out \<and>
    length out = 2 \<and>
    weight_pct (out ! 0) = Fin 25 \<and> weight_pct (out ! 1) = Fin 75"
proof -
  have a: "apply_rows (fetch_price no_quotes)
      [mk_holding ''cash'' ''USD'' 1 1, mk_holding ''cd'' ''X1'' 3 1] = Inr [1, 1]"
    by (simp add: fetch_price_def fetch_cd_price_def mk_holding_def lower_char_def upper_char_def)
  have b: "[mk_holding ''cash'' ''USD'' 1 1, mk_holding ''cd'' ''X1'' 3 1] \<noteq> []" by simp
  have c: "0 < market_value_sum (map2 core_metrics
      [mk_holding ''cash'' ''USD'' 1 1, mk_holding ''cd'' ''X1'' 3 1] [1, 1])"
    by (simp add: market_value_sum_def core_metrics_def mk_holding_def holding.defs)
  from weights_sum_to_100 [OF a b c, of no_info] obtain out where
    o: "load_and_process_portfolio no_quotes no_info
       [mk_holding ''cash'' ''USD'' 1 1, mk_holding ''cd'' ''X1'' 3 1] = Inr out"
      "length out = length [mk_holding ''cash'' ''USD'' 1 1, mk_holding ''cd'' ''X1'' 3 1]"
    and w: "\<forall>i<length [mk_holding ''cash'' ''USD'' 1 1, mk_holding ''cd'' ''X1'' 3 1].
       weight_pct (table_rows no_info
           [mk_holding ''cash'' ''USD'' 1 1, mk_holding ''cd'' ''X1'' 3 1] [1, 1] ! i)
         = Fin (claimed_weight
             [mk_holding ''cash'' ''USD'' 1 1, mk_holding ''cd'' ''X1'' 3 1] [1, 1] i) \<and>
       weight_pct (out ! i)
         = Fin (np_round 2 (claimed_weight
             [mk_holding ''cash'' ''USD'' 1 1, mk_holding ''cd'' ''X1'' 3 1] [1, 1] i))"
    by blast
  from w have "weight_pct (out ! 0) = Fin (np_round 2 25)"
    by (simp add: claimed_weight_def mk_holding_def)
  moreover from w have "weight_pct (out ! 1) = Fin (np_round 2 75)"
    by (simp add: claimed_weight_def mk_holding_def)
  moreover have "np_round 2 25 = 25" "np_round 2 75 = 75"
    by (simp_all add: np_round_def rint_def)
  ultimately show ?thesis using o by simp
qed

section \<open>Scoring is local to the row\<close>






end
